theory Spec2Isabelle
  imports Main "HOL-Library.Word"
begin

section \<open>Data model (internal/database/database.go)\<close>

text \<open>
  A \<open>time.Time\<close> is an instant on a linear time line. The wall clock is read by
  \<open>time.Now()\<close>; a call that reads the clock several times receives the readings as a
  function of the reading's index (\<open>now 0\<close> is the first reading of the call, \<open>now 1\<close> the
  second, and so on).
\<close>

type_synonym time = int
type_synonym clock = "nat \<Rightarrow> time"

definition After :: "time \<Rightarrow> time \<Rightarrow> bool" where
  \<comment> \<open>\<open>t.After(u)\<close>\<close>
  "After t u = (u < t)"

record L2TPServer =
  ID :: nat
  Name :: string
  Host :: string
  Port :: int
  Username :: string
  Password :: string
  L2TPPort :: int
  PSK :: string
  Users :: string
  Status :: string
  ExpireDate :: time
  IsExpired :: bool
  CreatedAt :: time
  UpdatedAt :: time

text \<open>
  Go errors. The messages of the source are Chinese text; each constructor stands for one
  \<open>fmt.Errorf\<close> site and carries the values formatted into the message.
\<close>

datatype error =
    ErrDB string                  \<comment> \<open>an error reported by the database driver\<close>
  | ErrRecordNotFound             \<comment> \<open>\<open>gorm.ErrRecordNotFound\<close>\<close>
  | ErrServerNotFound             \<comment> \<open>GetServer: the server does not exist\<close>
  | ErrPortInUse int              \<comment> \<open>CreateServer: relay port %d is already in use\<close>
  | ErrAlreadyRunning             \<comment> \<open>StartServer: the server is already running\<close>
  | ErrStarting                   \<comment> \<open>StartServer: the server is starting, please wait\<close>
  | ErrExpired                    \<comment> \<open>StartServer: the server has expired, cannot start\<close>
  | ErrAlreadyStopped             \<comment> \<open>StopServer: the server is already stopped\<close>
  | ErrStopping                   \<comment> \<open>StopServer: the server is stopping, please wait\<close>
  | ErrUpdateStatus error         \<comment> \<open>Start/StopServer: updating the server status failed: %v\<close>
  | ErrNoRowsAffected             \<comment> \<open>updateServerStatus: server missing or status not updated\<close>
  | ErrResolveAddr int            \<comment> \<open>\<open>net.ResolveUDPAddr\<close> / \<open>net.ResolveTCPAddr\<close> failed\<close>
  | ErrUDPBusy int                \<comment> \<open>checkPortAvailable: UDP port %d is occupied\<close>
  | ErrTCPBusy int                \<comment> \<open>checkPortAvailable: TCP port %d is occupied\<close>
  | ErrPortUnavailable int error  \<comment> \<open>startXrayForwarder: port %d unavailable: %v\<close>
  | ErrCreateInstance             \<comment> \<open>startXrayForwarder: creating the Xray instance failed\<close>
  | ErrStartInstance              \<comment> \<open>startXrayForwarder: starting the Xray instance failed\<close>
  | ErrVerifyInstance error       \<comment> \<open>startXrayForwarder: verifying the Xray instance failed: %v\<close>
  | ErrDial int                   \<comment> \<open>verifyXrayInstance: cannot connect to port %d\<close>
  | ErrWrite int                  \<comment> \<open>verifyXrayInstance: cannot write test data to port %d\<close>
  | ErrSSHConnect string          \<comment> \<open>createSSHClient: SSH connection failed: %v\<close>
  | ErrSession string             \<comment> \<open>executeCommand: \<open>client.NewSession\<close> failed\<close>
  | ErrCommand string string      \<comment> \<open>executeCommand: command failed: %v (, stderr: %s)\<close>
  | ErrDockerInstall error        \<comment> \<open>installDocker: Docker installation failed: %v\<close>
  | ErrDockerEnv error            \<comment> \<open>start sequence: preparing the Docker environment failed: %v\<close>
  | ErrCleanup error              \<comment> \<open>start sequence: cleaning the existing container failed: %v\<close>
  | ErrParseUsers string          \<comment> \<open>start sequence: parsing the user configuration failed: %v\<close>
  | ErrImagePull error            \<comment> \<open>start sequence: pulling the Docker image failed: %v\<close>
  | ErrContainerStart error       \<comment> \<open>start sequence: starting the Docker container failed: %v\<close>
  | ErrContainerReady error       \<comment> \<open>start sequence: container start verification failed: %v\<close>

section \<open>The persisted store (gorm over SQLite)\<close>

text \<open>
  The table \<open>l2tp_servers\<close> is the list of its rows. The driver can fail on any statement
  for reasons outside the table (I/O, locking); \<open>db_io\<close> says, for each kind of statement
  the services issue, whether the driver fails and with which message.
\<close>

type_synonym table = "L2TPServer list"

record db_io =
  count_fault :: "string option"
  first_fault :: "string option"
  create_fault :: "string option"
  update_fault :: "string option"

definition db_count_port :: "db_io \<Rightarrow> table \<Rightarrow> int \<Rightarrow> error + nat" where
  \<comment> \<open>\<open>tx.Model(&L2TPServer{}).Where("l2tp_port = ?", port).Count(&count)\<close>\<close>
  "db_count_port io tbl port =
     (case count_fault io of
        Some m \<Rightarrow> Inl (ErrDB m)
      | None \<Rightarrow> Inr (length (filter (\<lambda>r. L2TPPort r = port) tbl)))"

definition db_first :: "db_io \<Rightarrow> table \<Rightarrow> nat \<Rightarrow> error + L2TPServer" where
  \<comment> \<open>\<open>db.First(&server, id)\<close>\<close>
  "db_first io tbl sid =
     (case first_fault io of
        Some m \<Rightarrow> Inl (ErrDB m)
      | None \<Rightarrow>
          (case find (\<lambda>r. ID r = sid) tbl of
             None \<Rightarrow> Inl ErrRecordNotFound
           | Some r \<Rightarrow> Inr r))"

definition fresh_id :: "table \<Rightarrow> nat" where
  \<comment> \<open>the row id SQLite allocates: one more than the largest id in the table\<close>
  "fresh_id tbl = Suc (fold max (map ID tbl) 0)"

definition BeforeCreate :: "time \<Rightarrow> L2TPServer \<Rightarrow> L2TPServer" where
  \<comment> \<open>the GORM hook: \<open>l.IsExpired = time.Now().After(l.ExpireDate)\<close>\<close>
  "BeforeCreate t l = l\<lparr>IsExpired := After t (ExpireDate l)\<rparr>"

definition db_create :: "db_io \<Rightarrow> time \<Rightarrow> table \<Rightarrow> L2TPServer \<Rightarrow> error + (table \<times> L2TPServer)" where
  \<comment> \<open>\<open>tx.Create(server)\<close>: the hook runs, the column defaults of the struct tags are
      applied to zero-valued fields (\<open>port\<close> 22, \<open>status\<close> stopped), a zero primary key is
      allocated by the table, the primary key and the \<open>unique\<close> column \<open>l2tp_port\<close> are
      enforced. \<open>IsExpired\<close> is tagged \<open>gorm:"-"\<close> and is not a column, so the stored
      row holds the zero value for it.\<close>
  "db_create io t tbl server =
     (let l = BeforeCreate t server;
          l = (if Port l = 0 then l\<lparr>Port := 22\<rparr> else l);
          l = (if Status l = [] then l\<lparr>Status := ''stopped''\<rparr> else l)
      in case create_fault io of
           Some m \<Rightarrow> Inl (ErrDB m)
         | None \<Rightarrow>
             if ID l \<noteq> 0 \<and> (\<exists>r \<in> set tbl. ID r = ID l)
             then Inl (ErrDB ''UNIQUE constraint failed: l2tp_servers.id'')
             else if \<exists>r \<in> set tbl. L2TPPort r = L2TPPort l
             then Inl (ErrDB ''UNIQUE constraint failed: l2tp_servers.l2tp_port'')
             else let l = (if ID l = 0 then l\<lparr>ID := fresh_id tbl\<rparr> else l)
                  in Inr (tbl @ [l\<lparr>IsExpired := False\<rparr>], l))"

definition db_update_status :: "db_io \<Rightarrow> table \<Rightarrow> nat \<Rightarrow> string \<Rightarrow> time \<Rightarrow> error + (table \<times> nat)" where
  \<comment> \<open>\<open>db.Model(&L2TPServer{}).Where("id = ?", id).Updates({status, updated_at})\<close>;
      the second component is \<open>RowsAffected\<close>\<close>
  "db_update_status io tbl sid status t =
     (case update_fault io of
        Some m \<Rightarrow> Inl (ErrDB m)
      | None \<Rightarrow>
          Inr (map (\<lambda>r. if ID r = sid then r\<lparr>Status := status, UpdatedAt := t\<rparr> else r) tbl,
               length (filter (\<lambda>r. ID r = sid) tbl)))"

section \<open>The lifecycle service (internal/services/l2tp.go)\<close>

record L2TPService =
  db :: table
  wsManager :: bool   \<comment> \<open>whether the \<open>*WSManager\<close> is non-nil\<close>

text \<open>
  What a call does besides returning: the messages it hands to the WebSocket manager and
  the goroutines it spawns with \<open>go\<close>, in order. The text of a status broadcast sent by
  \<open>updateServerStatus\<close> is \<open>getStatusMessage status\<close>; a progress broadcast carries the
  step name.
\<close>

datatype task =
    AsyncStartServer nat L2TPServer
  | AsyncStopServer nat L2TPServer
  | AsyncRestartServer nat

datatype effect =
    BroadcastServerCreated L2TPServer
  | BroadcastServerStatus nat string
  | BroadcastProgress nat string string
  | Go task

definition CreateServer ::
  "db_io \<Rightarrow> clock \<Rightarrow> L2TPService \<Rightarrow> L2TPServer \<Rightarrow> error option \<times> L2TPService \<times> L2TPServer \<times> effect list" where
  \<comment> \<open>The transaction commits when its body returns nil and rolls back otherwise. The
      third component is the caller's \<open>*server\<close> after the call.\<close>
  "CreateServer io now s server =
     (case db_count_port io (db s) (L2TPPort server) of
        Inl e \<Rightarrow> (Some e, s, server, [])
      | Inr count \<Rightarrow>
          if count > 0 then (Some (ErrPortInUse (L2TPPort server)), s, server, [])
          else
            let server = server\<lparr>Status := ''stopped'', CreatedAt := now 0, UpdatedAt := now 1\<rparr>
            in case db_create io (now 2) (db s) server of
                 Inl e \<Rightarrow> (Some e, s, BeforeCreate (now 2) server, [])
               | Inr (tbl, server) \<Rightarrow>
                   (None, s\<lparr>db := tbl\<rparr>, server,
                    if wsManager s then [BroadcastServerCreated server] else []))"

definition GetServer :: "db_io \<Rightarrow> time \<Rightarrow> L2TPService \<Rightarrow> nat \<Rightarrow> error + L2TPServer" where
  "GetServer io t s sid =
     (case db_first io (db s) sid of
        Inl e \<Rightarrow> if e = ErrRecordNotFound then Inl ErrServerNotFound else Inl e
      | Inr server \<Rightarrow> Inr (server\<lparr>IsExpired := After t (ExpireDate server)\<rparr>))"

definition updateServerStatus ::
  "db_io \<Rightarrow> time \<Rightarrow> L2TPService \<Rightarrow> nat \<Rightarrow> string \<Rightarrow> error option \<times> L2TPService \<times> effect list" where
  "updateServerStatus io t s sid status =
     (case db_update_status io (db s) sid status t of
        Inl e \<Rightarrow> (Some e, s, [])
      | Inr (tbl, rowsAffected) \<Rightarrow>
          if rowsAffected = 0 then (Some ErrNoRowsAffected, s\<lparr>db := tbl\<rparr>, [])
          else (None, s\<lparr>db := tbl\<rparr>,
                if wsManager s then [BroadcastServerStatus sid status] else []))"

definition StartServer ::
  "db_io \<Rightarrow> clock \<Rightarrow> L2TPService \<Rightarrow> nat \<Rightarrow> error option \<times> L2TPService \<times> effect list" where
  "StartServer io now s sid =
     (case GetServer io (now 0) s sid of
        Inl err \<Rightarrow> (Some err, s, [])
      | Inr server \<Rightarrow>
          if Status server = ''running'' then (Some ErrAlreadyRunning, s, [])
          else if Status server = ''starting'' then (Some ErrStarting, s, [])
          else if After (now 1) (ExpireDate server) then (Some ErrExpired, s, [])
          else
            (case updateServerStatus io (now 2) s sid ''starting'' of
               (Some err, s', effs) \<Rightarrow> (Some (ErrUpdateStatus err), s', effs)
             | (None, s', effs) \<Rightarrow> (None, s', effs @ [Go (AsyncStartServer sid server)])))"

definition StopServer ::
  "db_io \<Rightarrow> clock \<Rightarrow> L2TPService \<Rightarrow> nat \<Rightarrow> error option \<times> L2TPService \<times> effect list" where
  "StopServer io now s sid =
     (case GetServer io (now 0) s sid of
        Inl err \<Rightarrow> (Some err, s, [])
      | Inr server \<Rightarrow>
          if Status server = ''stopped'' then (Some ErrAlreadyStopped, s, [])
          else if Status server = ''stopping'' then (Some ErrStopping, s, [])
          else
            (case updateServerStatus io (now 1) s sid ''stopping'' of
               (Some err, s', effs) \<Rightarrow> (Some (ErrUpdateStatus err), s', effs)
             | (None, s', effs) \<Rightarrow> (None, s', effs @ [Go (AsyncStopServer sid server)])))"

definition RestartServer ::
  "db_io \<Rightarrow> clock \<Rightarrow> L2TPService \<Rightarrow> nat \<Rightarrow> error option \<times> L2TPService \<times> effect list" where
  \<comment> \<open>the nested call reads the clock after RestartServer's own first reading\<close>
  "RestartServer io now s sid =
     (case GetServer io (now 0) s sid of
        Inl err \<Rightarrow> (Some err, s, [])
      | Inr server \<Rightarrow>
          if Status server = ''running'' then
            (case StopServer io (\<lambda>k. now (Suc k)) s sid of
               (Some err, s', effs) \<Rightarrow> (Some err, s', effs)
             | (None, s', effs) \<Rightarrow> (None, s', effs @ [Go (AsyncRestartServer sid)]))
          else StartServer io (\<lambda>k. now (Suc k)) s sid)"

section \<open>The forwarder registry (internal/services/routing.go)\<close>

text \<open>
  A \<open>*core.Instance\<close> is a handle; \<open>nextInstance\<close> is the allocator's count of the
  handles given out so far, so that every instance \<open>core.New\<close> returns is a new one. A Go
  map that holds pointers can hold a nil pointer: \<open>xrayInstances r p = Some None\<close>.
  The counters are \<open>int64\<close>, so \<open>+=\<close> wraps around.
\<close>

type_synonym Instance = nat

record TrafficStats =
  BytesSent :: "64 word"
  BytesReceived :: "64 word"
  PacketsSent :: "64 word"
  PacketsReceived :: "64 word"
  LastUpdate :: time

record RoutingService =
  servers :: "(int \<times> L2TPServer) list"
  trafficStats :: "string \<rightharpoonup> TrafficStats"
  xrayInstances :: "int \<rightharpoonup> Instance option"
  nextInstance :: nat

text \<open>
  The host and the forwarding engine are opaque: \<open>host_env\<close> gives the outcome of each
  call a function makes to them (the probes by port, the liveness probe by port and
  timeout in seconds, the engine by port and backend host).
\<close>

record host_env =
  resolve_udp :: "int \<Rightarrow> bool"
  listen_udp :: "int \<Rightarrow> bool"
  resolve_tcp :: "int \<Rightarrow> bool"
  listen_tcp :: "int \<Rightarrow> bool"
  core_new :: "int \<Rightarrow> string \<Rightarrow> bool"
  instance_start :: "int \<Rightarrow> bool"
  dial_udp :: "int \<Rightarrow> nat \<Rightarrow> bool"
  write_udp :: "int \<Rightarrow> nat \<Rightarrow> bool"

text \<open>
  What a call does to the host, the engine and the registry, in the order it does it. An
  error of \<open>instance.Close()\<close> is only logged by the source, so the event has no outcome.
\<close>

datatype event =
    ProbeUDP int bool                 \<comment> \<open>\<open>net.ListenUDP\<close> on the port, closed again if bound\<close>
  | ProbeTCP int bool                 \<comment> \<open>\<open>net.ListenTCP\<close> on the port, closed again if bound\<close>
  | ProbeLiveness int nat bool        \<comment> \<open>\<open>verifyXrayInstance(port, timeout)\<close>\<close>
  | InstanceClose int Instance        \<comment> \<open>\<open>instance.Close()\<close> of an instance of the port\<close>
  | RegistryDelete int                \<comment> \<open>\<open>delete(r.xrayInstances, port)\<close>\<close>
  | CoreNew int "Instance option"     \<comment> \<open>\<open>core.New(config)\<close>: the instance, or failure\<close>
  | InstanceStart int Instance bool   \<comment> \<open>\<open>instance.Start()\<close>\<close>
  | RegistryStore int Instance        \<comment> \<open>\<open>r.xrayInstances[port] = instance\<close>\<close>
  | GoMonitorTraffic int string       \<comment> \<open>\<open>go r.monitorTraffic(statsKey, port)\<close>\<close>

fun event_port :: "event \<Rightarrow> int" where
  "event_port (ProbeUDP p _) = p"
| "event_port (ProbeTCP p _) = p"
| "event_port (ProbeLiveness p _ _) = p"
| "event_port (InstanceClose p _) = p"
| "event_port (RegistryDelete p) = p"
| "event_port (CoreNew p _) = p"
| "event_port (InstanceStart p _ _) = p"
| "event_port (RegistryStore p _) = p"
| "event_port (GoMonitorTraffic p _) = p"

fun is_launch :: "event \<Rightarrow> bool" where
  "is_launch (CoreNew _ _) = True"
| "is_launch (InstanceStart _ _ _) = True"
| "is_launch (RegistryStore _ _) = True"
| "is_launch _ = False"

definition digit_char :: "nat \<Rightarrow> char" where
  "digit_char d = char_of (d + 48)"

function decimal :: "nat \<Rightarrow> string \<Rightarrow> string" where
  \<comment> \<open>the decimal digits of \<open>n\<close>, most significant first, in front of \<open>acc\<close>\<close>
  "decimal n acc =
     (if n < 10 then digit_char n # acc
      else decimal (n div 10) (digit_char (n mod 10) # acc))"
  by pat_completeness auto
termination
  by (relation "measure (\<lambda>(n, acc). n)") auto

declare decimal.simps [simp del]

definition format_d :: "int \<Rightarrow> string" where
  \<comment> \<open>the verb \<open>%d\<close> of \<open>fmt.Sprintf\<close>\<close>
  "format_d i = (if i < 0 then CHR ''-'' # decimal (nat (- i)) [] else decimal (nat i) [])"

definition statsKey :: "string \<Rightarrow> int \<Rightarrow> string" where
  \<comment> \<open>\<open>fmt.Sprintf("%s:%d", host, port)\<close>\<close>
  "statsKey host port = host @ '':'' @ format_d port"

definition checkPortAvailable :: "host_env \<Rightarrow> int \<Rightarrow> error option \<times> event list" where
  "checkPortAvailable env port =
     (if \<not> resolve_udp env port then (Some (ErrResolveAddr port), [])
      else if \<not> listen_udp env port then (Some (ErrUDPBusy port), [ProbeUDP port False])
      else if \<not> resolve_tcp env port then (Some (ErrResolveAddr port), [ProbeUDP port True])
      else if \<not> listen_tcp env port
      then (Some (ErrTCPBusy port), [ProbeUDP port True, ProbeTCP port False])
      else (None, [ProbeUDP port True, ProbeTCP port True]))"

definition verifyXrayInstance :: "host_env \<Rightarrow> int \<Rightarrow> nat \<Rightarrow> error option" where
  "verifyXrayInstance env port timeout =
     (if \<not> dial_udp env port timeout then Some (ErrDial port)
      else if \<not> write_udp env port timeout then Some (ErrWrite port)
      else None)"

definition startXrayForwarder ::
  "host_env \<Rightarrow> time \<Rightarrow> int \<Rightarrow> L2TPServer \<Rightarrow> RoutingService \<Rightarrow> error option \<times> RoutingService \<times> event list" where
  "startXrayForwarder env t listenPort server r =
     (case checkPortAvailable env listenPort of
        (Some err, ev0) \<Rightarrow> (Some (ErrPortUnavailable listenPort err), r, ev0)
      | (None, ev0) \<Rightarrow>
          let (r, ev1) =
                (case xrayInstances r listenPort of
                   None \<Rightarrow> (r, [])
                 | Some instance \<Rightarrow>
                     (r\<lparr>xrayInstances := (xrayInstances r)(listenPort := None)\<rparr>,
                      (case instance of
                         None \<Rightarrow> []
                       | Some old \<Rightarrow> [InstanceClose listenPort old]) @ [RegistryDelete listenPort]));
              key = statsKey (Host server) listenPort;
              r = (if trafficStats r key = None
                   then r\<lparr>trafficStats := (trafficStats r)(key \<mapsto>
                          \<lparr>BytesSent = 0, BytesReceived = 0, PacketsSent = 0,
                           PacketsReceived = 0, LastUpdate = t\<rparr>)\<rparr>
                   else r)
          in if \<not> core_new env listenPort (Host server)
             then (Some ErrCreateInstance, r, ev0 @ ev1 @ [CoreNew listenPort None])
             else
               let instance = nextInstance r;
                   r = r\<lparr>nextInstance := Suc instance\<rparr>;
                   ev2 = ev0 @ ev1 @ [CoreNew listenPort (Some instance)]
               in if \<not> instance_start env listenPort
                  then (Some ErrStartInstance, r,
                        ev2 @ [InstanceStart listenPort instance False,
                               InstanceClose listenPort instance])
                  else
                    (case verifyXrayInstance env listenPort 3 of
                       Some err \<Rightarrow>
                         (Some (ErrVerifyInstance err), r,
                          ev2 @ [InstanceStart listenPort instance True,
                                 ProbeLiveness listenPort 3 False,
                                 InstanceClose listenPort instance])
                     | None \<Rightarrow>
                         (None,
                          r\<lparr>xrayInstances := (xrayInstances r)(listenPort \<mapsto> Some instance)\<rparr>,
                          ev2 @ [InstanceStart listenPort instance True,
                                 ProbeLiveness listenPort 3 True,
                                 RegistryStore listenPort instance,
                                 GoMonitorTraffic listenPort key])))"

definition updateStats ::
  "time \<Rightarrow> string \<Rightarrow> 64 word \<Rightarrow> 64 word \<Rightarrow> 64 word \<Rightarrow> 64 word \<Rightarrow> RoutingService \<Rightarrow> RoutingService" where
  "updateStats t key bytesSent bytesReceived packetsSent packetsReceived r =
     (case trafficStats r key of
        Some stats \<Rightarrow>
          r\<lparr>trafficStats := (trafficStats r)(key \<mapsto>
             stats\<lparr>BytesSent := BytesSent stats + bytesSent,
                   BytesReceived := BytesReceived stats + bytesReceived,
                   PacketsSent := PacketsSent stats + packetsSent,
                   PacketsReceived := PacketsReceived stats + packetsReceived,
                   LastUpdate := t\<rparr>)\<rparr>
      | None \<Rightarrow> r)"

definition estimateTraffic :: "time \<Rightarrow> string \<Rightarrow> int \<Rightarrow> RoutingService \<Rightarrow> RoutingService" where
  "estimateTraffic t key port r =
     (case trafficStats r key of
        Some stats \<Rightarrow> r\<lparr>trafficStats := (trafficStats r)(key \<mapsto> stats\<lparr>LastUpdate := t\<rparr>)\<rparr>
      | None \<Rightarrow> r)"

definition checkXrayInstance ::
  "host_env \<Rightarrow> time \<Rightarrow> int \<Rightarrow> L2TPServer \<Rightarrow> RoutingService \<Rightarrow> RoutingService \<times> event list" where
  \<comment> \<open>the body of the loop of \<open>checkXrayInstances\<close>; the errors are only logged\<close>
  "checkXrayInstance env t port server r =
     (if Status server = ''running'' then
        (case xrayInstances r port of
           None \<Rightarrow>
             (case startXrayForwarder env t port server r of (_, r, ev) \<Rightarrow> (r, ev))
         | Some None \<Rightarrow>
             (case startXrayForwarder env t port server r of (_, r, ev) \<Rightarrow> (r, ev))
         | Some (Some instance) \<Rightarrow>
             (case verifyXrayInstance env port 1 of
                Some err \<Rightarrow>
                  (case startXrayForwarder env t port server
                          (r\<lparr>xrayInstances := (xrayInstances r)(port := None)\<rparr>) of
                     (_, r, ev) \<Rightarrow>
                       (r, [ProbeLiveness port 1 False, InstanceClose port instance,
                            RegistryDelete port] @ ev))
              | None \<Rightarrow> (r, [ProbeLiveness port 1 True])))
      else (r, []))"

fun checkXrayInstances_loop ::
  "host_env \<Rightarrow> clock \<Rightarrow> (int \<times> L2TPServer) list \<Rightarrow> RoutingService \<Rightarrow> RoutingService \<times> event list" where
  "checkXrayInstances_loop env now [] r = (r, [])"
| "checkXrayInstances_loop env now ((port, server) # rest) r =
     (case checkXrayInstance env (now 0) port server r of
        (r, ev) \<Rightarrow>
          (case checkXrayInstances_loop env (\<lambda>k. now (Suc k)) rest r of
             (r, evs) \<Rightarrow> (r, ev @ evs)))"

definition checkXrayInstances ::
  "host_env \<Rightarrow> clock \<Rightarrow> RoutingService \<Rightarrow> RoutingService \<times> event list" where
  \<comment> \<open>\<open>for port, server := range r.servers\<close>: the list's order is the order of the
      iteration, and \<open>now k\<close> is the clock while the k-th entry is visited\<close>
  "checkXrayInstances env now r = checkXrayInstances_loop env now (servers r) r"

section \<open>The remote operation driver (package services, SSHService; in src/internal/database/database.go from line 146)\<close>

text \<open>
  The backend host is reached over SSH. A command is the text handed to \<open>session.Run\<close>;
  each constructor stands for one command text of the source and carries the values
  formatted into it. The host is opaque: \<open>run\<close> gives, for the commands already executed
  on it and the next command, what the session reports.
\<close>

datatype command =
    DockerVersion                     \<comment> \<open>\<open>docker --version\<close>\<close>
  | DockerInfo                        \<comment> \<open>\<open>docker info\<close>\<close>
  | InstallDocker                     \<comment> \<open>the installation script\<close>
  | DockerStop string                 \<comment> \<open>\<open>docker stop %s\<close>\<close>
  | DockerRm string                   \<comment> \<open>\<open>docker rm %s\<close>\<close>
  | DockerPull                        \<comment> \<open>\<open>docker pull siomiz/softethervpn:4.38-alpine\<close>\<close>
  | DockerRun string string string    \<comment> \<open>\<open>docker run -d --name %s ... -e PSK=%s -e USERS="%s" ...\<close>\<close>
  | DockerEventsStart string          \<comment> \<open>\<open>timeout 30 docker events --filter container=%s
                                           --filter event=start ... | head -n 1\<close>\<close>

datatype run_result =
    SessionFails string               \<comment> \<open>\<open>client.NewSession\<close> returns an error\<close>
  | RunFails string string            \<comment> \<open>\<open>session.Run\<close> returns an error; the second is stderr\<close>
  | Output string                     \<comment> \<open>the command ran; its standard output\<close>

text \<open>
  The fields \<open>Username\<close> and \<open>Password\<close> of \<open>L2TPUser\<close> (l2tp.go) are named
  \<open>UserName\<close> and \<open>UserPassword\<close> here: the record of the endpoint has the other two.
\<close>

record L2TPUser =
  UserName :: string
  UserPassword :: string

record remote_env =
  ssh_dial :: "L2TPServer \<Rightarrow> string option"
  run :: "command list \<Rightarrow> command \<Rightarrow> run_result"
  json_users :: "string \<Rightarrow> string + L2TPUser list"

text \<open>A call of the status callback: the step, whether it succeeded, the error in its message.\<close>

type_synonym progress = "string \<times> bool \<times> error option"

definition isSpace :: "char \<Rightarrow> bool" where
  "isSpace c = (c \<in> set [CHR '' '', CHR 0x09, CHR 0x0A, CHR 0x0B, CHR 0x0C, CHR 0x0D])"

definition TrimSpace :: "string \<Rightarrow> string" where
  \<comment> \<open>\<open>strings.TrimSpace\<close> on ASCII text\<close>
  "TrimSpace s = rev (dropWhile isSpace (rev (dropWhile isSpace s)))"

fun Join :: "string list \<Rightarrow> string \<Rightarrow> string" where
  "Join [] sep = []"
| "Join [x] sep = x"
| "Join (x # xs) sep = x @ sep @ Join xs sep"

definition createSSHClient :: "remote_env \<Rightarrow> L2TPServer \<Rightarrow> error option" where
  "createSSHClient env server =
     (case ssh_dial env server of
        Some m \<Rightarrow> Some (ErrSSHConnect m)
      | None \<Rightarrow> None)"

definition executeCommand ::
  "remote_env \<Rightarrow> command list \<Rightarrow> command \<Rightarrow> (error + string) \<times> command list" where
  \<comment> \<open>the second component: the commands executed on the host after the call\<close>
  "executeCommand env hist cmd =
     (case run env hist cmd of
        SessionFails m \<Rightarrow> (Inl (ErrSession m), hist)
      | RunFails m stderr \<Rightarrow> (Inl (ErrCommand m stderr), hist @ [cmd])
      | Output out \<Rightarrow> (Inr out, hist @ [cmd]))"

definition installDocker :: "remote_env \<Rightarrow> command list \<Rightarrow> error option \<times> command list" where
  "installDocker env hist =
     (case executeCommand env hist InstallDocker of
        (Inl err, hist) \<Rightarrow> (Some (ErrDockerInstall err), hist)
      | (Inr _, hist) \<Rightarrow>
          (case executeCommand env hist DockerVersion of
             (Inl err, hist) \<Rightarrow> (Some err, hist)
           | (Inr _, hist) \<Rightarrow> (None, hist)))"

definition ensureDockerInstalled :: "remote_env \<Rightarrow> command list \<Rightarrow> error option \<times> command list" where
  "ensureDockerInstalled env hist =
     (case executeCommand env hist DockerVersion of
        (Inr _, hist) \<Rightarrow>
          (case executeCommand env hist DockerInfo of
             (Inr _, hist) \<Rightarrow> (None, hist)
           | (Inl _, hist) \<Rightarrow> installDocker env hist)
      | (Inl _, hist) \<Rightarrow> installDocker env hist)"

definition cleanupExistingContainer ::
  "remote_env \<Rightarrow> command list \<Rightarrow> string \<Rightarrow> error option \<times> command list" where
  \<comment> \<open>both errors are ignored\<close>
  "cleanupExistingContainer env hist containerName =
     (case executeCommand env hist (DockerStop containerName) of
        (_, hist) \<Rightarrow>
          (case executeCommand env hist (DockerRm containerName) of
             (_, hist) \<Rightarrow> (None, hist)))"

definition waitForContainerReady ::
  "remote_env \<Rightarrow> command list \<Rightarrow> string \<Rightarrow> error option \<times> command list" where
  "waitForContainerReady env hist containerName =
     (case executeCommand env hist (DockerEventsStart containerName) of
        (Inl err, hist) \<Rightarrow> (None, hist)
      | (Inr output, hist) \<Rightarrow>
          if TrimSpace output = ''start'' then (None, hist)
          else (None, hist))"

definition buildUserEnv :: "L2TPUser list \<Rightarrow> string" where
  "buildUserEnv users =
     (if length users = 0 then ''test:test123''
      else Join (map (\<lambda>user. UserName user @ '':'' @ UserPassword user) users) '','')"

definition StartL2TPContainerWithCallback ::
  "remote_env \<Rightarrow> L2TPServer \<Rightarrow> error option \<times> progress list" where
  \<comment> \<open>the second component: the calls of \<open>statusCallback\<close>, in order\<close>
  "StartL2TPContainerWithCallback env server =
     (case createSSHClient env server of
        Some err \<Rightarrow> (Some err, [(''ssh_connect'', False, Some err)])
      | None \<Rightarrow>
     let cb = [(''ssh_connect'', True, None)] in
     case ensureDockerInstalled env [] of
        (Some err, hist) \<Rightarrow> (Some (ErrDockerEnv err), cb @ [(''docker_check'', False, Some err)])
      | (None, hist) \<Rightarrow>
     let cb = cb @ [(''docker_check'', True, None)];
         containerName = ''l2tp-server'' in
     case cleanupExistingContainer env hist containerName of
        (Some err, hist) \<Rightarrow> (Some (ErrCleanup err), cb @ [(''cleanup'', False, Some err)])
      | (None, hist) \<Rightarrow>
     let cb = cb @ [(''cleanup'', True, None)] in
     case (if Users server \<noteq> [] then json_users env (Users server) else Inr []) of
        Inl m \<Rightarrow> (Some (ErrParseUsers m), cb @ [(''config'', False, Some (ErrParseUsers m))])
      | Inr users \<Rightarrow>
     let userEnv = buildUserEnv users;
         cb = cb @ [(''config'', True, None)] in
     case executeCommand env hist DockerPull of
        (Inl err, hist) \<Rightarrow> (Some (ErrImagePull err), cb @ [(''image_pull'', False, Some err)])
      | (Inr _, hist) \<Rightarrow>
     let cb = cb @ [(''image_pull'', True, None)] in
     case executeCommand env hist (DockerRun containerName (PSK server) userEnv) of
        (Inl err, hist) \<Rightarrow>
          (Some (ErrContainerStart err), cb @ [(''container_start'', False, Some err)])
      | (Inr _, hist) \<Rightarrow>
     let cb = cb @ [(''container_start'', True, None)] in
     case waitForContainerReady env hist containerName of
        (Some err, hist) \<Rightarrow>
          (case cleanupExistingContainer env hist containerName of
             (_, hist) \<Rightarrow>
               (Some (ErrContainerReady err), cb @ [(''container_ready'', False, Some err)]))
      | (None, hist) \<Rightarrow> (None, cb @ [(''container_ready'', True, None)]))"

definition asyncStartServer ::
  "db_io \<Rightarrow> remote_env \<Rightarrow> time \<Rightarrow> L2TPService \<Rightarrow> nat \<Rightarrow> L2TPServer \<Rightarrow> L2TPService \<times> effect list" where
  \<comment> \<open>the goroutine \<open>StartServer\<close> spawns; \<open>detailCallback\<close> broadcasts each step as
      \<open>starting\<close> or \<open>error\<close>\<close>
  "asyncStartServer io env t s sid server =
     (case StartL2TPContainerWithCallback env server of
        (result, cb) \<Rightarrow>
          let detail =
                (if wsManager s
                 then map (\<lambda>(step, success, _).
                        BroadcastProgress sid (if success then ''starting'' else ''error'') step) cb
                 else [])
          in case result of
               Some err \<Rightarrow>
                 (case updateServerStatus io t s sid ''error'' of
                    (_, s, effs) \<Rightarrow> (s, detail @ effs))
             | None \<Rightarrow>
                 (case updateServerStatus io t s sid ''running'' of
                    (_, s, effs) \<Rightarrow> (s, detail @ effs)))"


section \<open>Auxiliary notions and example data\<close>

definition counters :: "TrafficStats \<Rightarrow> 64 word \<times> 64 word \<times> 64 word \<times> 64 word" where
  \<comment> \<open>the four byte and packet counters of a stat record\<close>
  "counters st = (BytesSent st, BytesReceived st, PacketsSent st, PacketsReceived st)"

definition example_server :: L2TPServer where
  "example_server =
     \<lparr>ID = 1, Name = ''relay'', Host = ''10.0.0.5'', Port = 22, Username = ''root'',
      Password = ''secret'', L2TPPort = 5000, PSK = ''psk'', Users = [], Status = ''stopped'',
      ExpireDate = 1000, IsExpired = False, CreatedAt = 0, UpdatedAt = 0\<rparr>"

definition example_service :: "string \<Rightarrow> L2TPService" where
  \<comment> \<open>a store holding the example endpoint in the given state\<close>
  "example_service st = \<lparr>db = [example_server\<lparr>Status := st\<rparr>], wsManager = False\<rparr>"

definition no_faults :: db_io where
  "no_faults = \<lparr>count_fault = None, first_fault = None, create_fault = None, update_fault = None\<rparr>"

definition healthy_host :: host_env where
  \<comment> \<open>a host where every probe and every engine call succeeds\<close>
  "healthy_host =
     \<lparr>resolve_udp = (\<lambda>_. True), listen_udp = (\<lambda>_. True), resolve_tcp = (\<lambda>_. True),
      listen_tcp = (\<lambda>_. True), core_new = (\<lambda>_ _. True), instance_start = (\<lambda>_. True),
      dial_udp = (\<lambda>_ _. True), write_udp = (\<lambda>_ _. True)\<rparr>"

definition example_routing :: RoutingService where
  \<comment> \<open>the example endpoint running on port 5000 with no instance, a stopped one on 5001\<close>
  "example_routing =
     \<lparr>servers = [(5000, example_server\<lparr>Status := ''running''\<rparr>),
                 (5001, example_server\<lparr>ID := 2, L2TPPort := 5001\<rparr>)],
      trafficStats = Map.empty, xrayInstances = Map.empty, nextInstance = 0\<rparr>"

definition silent_remote :: remote_env where
  \<comment> \<open>a backend where every command runs and prints nothing: the start event is never seen\<close>
  "silent_remote =
     \<lparr>ssh_dial = (\<lambda>_. None), run = (\<lambda>_ _. Output []), json_users = (\<lambda>_. Inr [])\<rparr>"

section \<open>Facts about the store\<close>

lemma update_no_match:
  "filter (\<lambda>r. ID r = sid) tbl = [] \<Longrightarrow>
   map (\<lambda>r. if ID r = sid then f r else r) tbl = tbl"
  by (induction tbl) (auto split: if_splits)

lemma count_pos: "\<exists>r \<in> set tbl. P r \<Longrightarrow> 0 < length (filter P tbl)"
  by (induction tbl) auto

lemma updateServerStatus_error_frame:
  "updateServerStatus io t s sid status = (Some e, s', effs) \<Longrightarrow> s' = s \<and> effs = []"
  by (auto simp: updateServerStatus_def db_update_status_def update_no_match
      split: option.splits sum.splits prod.splits if_splits)

lemma StartServer_error_frame:
  "StartServer io now s sid = (Some e, s', effs) \<Longrightarrow> s' = s \<and> effs = []"
  by (auto simp: StartServer_def split: sum.splits if_splits prod.splits option.splits
      dest: updateServerStatus_error_frame)

lemma StopServer_error_frame:
  "StopServer io now s sid = (Some e, s', effs) \<Longrightarrow> s' = s \<and> effs = []"
  by (auto simp: StopServer_def split: sum.splits if_splits prod.splits option.splits
      dest: updateServerStatus_error_frame)

lemma StartServer_accepted:
  assumes "StartServer io now s sid = (None, s', effs)"
  shows "\<exists>server. GetServer io (now 0) s sid = Inr server \<and>
           effs = (if wsManager s then [BroadcastServerStatus sid ''starting''] else []) @
                  [Go (AsyncStartServer sid server)]"
  using assms
  by (auto simp: StartServer_def updateServerStatus_def
      split: sum.splits if_splits prod.splits option.splits)

lemma StopServer_accepted:
  assumes "StopServer io now s sid = (None, s', effs)"
  shows "\<exists>server. GetServer io (now 0) s sid = Inr server \<and>
           effs = (if wsManager s then [BroadcastServerStatus sid ''stopping''] else []) @
                  [Go (AsyncStopServer sid server)]"
  using assms
  by (auto simp: StopServer_def updateServerStatus_def
      split: sum.splits if_splits prod.splits option.splits)

section \<open>Lifecycle guards\<close>

text \<open>
  C1 (as amended). The guards are per operation: a start request is rejected when the
  persisted state is \<open>starting\<close>, a stop request when it is \<open>stopping\<close>. Every rejected
  start or stop request leaves the service as it was and spawns nothing; every accepted
  one spawns exactly one background task, after the status broadcast.
\<close>

theorem same_kind_in_flight_rejected:
  assumes "GetServer io (now 0) s sid = Inr server"
  shows "(Status server = ''starting'' \<longrightarrow> StartServer io now s sid = (Some ErrStarting, s, [])) \<and>
         (Status server = ''stopping'' \<longrightarrow> StopServer io now s sid = (Some ErrStopping, s, [])) \<and>
         (\<forall>e s' effs. StartServer io now s sid = (Some e, s', effs) \<longrightarrow> s' = s \<and> effs = []) \<and>
         (\<forall>e s' effs. StopServer io now s sid = (Some e, s', effs) \<longrightarrow> s' = s \<and> effs = []) \<and>
         (\<forall>s' effs. StartServer io now s sid = (None, s', effs) \<longrightarrow>
            effs = (if wsManager s then [BroadcastServerStatus sid ''starting''] else []) @
                   [Go (AsyncStartServer sid server)]) \<and>
         (\<forall>s' effs. StopServer io now s sid = (None, s', effs) \<longrightarrow>
            effs = (if wsManager s then [BroadcastServerStatus sid ''stopping''] else []) @
                   [Go (AsyncStopServer sid server)])"
proof -
  have a: "Status server = ''starting'' \<longrightarrow> StartServer io now s sid = (Some ErrStarting, s, [])"
    using assms by (simp add: StartServer_def)
  have b: "Status server = ''stopping'' \<longrightarrow> StopServer io now s sid = (Some ErrStopping, s, [])"
    using assms by (simp add: StopServer_def)
  have c: "\<forall>e s' effs. StartServer io now s sid = (Some e, s', effs) \<longrightarrow> s' = s \<and> effs = []"
    using StartServer_error_frame by blast
  have d: "\<forall>e s' effs. StopServer io now s sid = (Some e, s', effs) \<longrightarrow> s' = s \<and> effs = []"
    using StopServer_error_frame by blast
  have e: "\<forall>s' effs. StartServer io now s sid = (None, s', effs) \<longrightarrow>
            effs = (if wsManager s then [BroadcastServerStatus sid ''starting''] else []) @
                   [Go (AsyncStartServer sid server)]"
    using StartServer_accepted[of io now s sid] assms by auto
  have f: "\<forall>s' effs. StopServer io now s sid = (None, s', effs) \<longrightarrow>
            effs = (if wsManager s then [BroadcastServerStatus sid ''stopping''] else []) @
                   [Go (AsyncStopServer sid server)]"
    using StopServer_accepted[of io now s sid] assms by auto
  from a b c d e f show ?thesis by blast
qed

theorem same_kind_in_flight_rejected_witness:
  "StartServer no_faults (\<lambda>_. 10) (example_service ''starting'') 1 =
     (Some ErrStarting, example_service ''starting'', []) \<and>
   StopServer no_faults (\<lambda>_. 10) (example_service ''stopping'') 1 =
     (Some ErrStopping, example_service ''stopping'', []) \<and>
   fst (StartServer no_faults (\<lambda>_. 10) (example_service ''stopped'') 1) = None \<and>
   snd (snd (StartServer no_faults (\<lambda>_. 10) (example_service ''stopped'') 1)) =
     [Go (AsyncStartServer 1 example_server)]"
proof -
  have g1: "GetServer no_faults 10 (example_service ''starting'') 1 =
              Inr (example_server\<lparr>Status := ''starting''\<rparr>)"
    by (simp add: GetServer_def db_first_def no_faults_def example_service_def
        example_server_def After_def)
  have g2: "GetServer no_faults 10 (example_service ''stopping'') 1 =
              Inr (example_server\<lparr>Status := ''stopping''\<rparr>)"
    by (simp add: GetServer_def db_first_def no_faults_def example_service_def
        example_server_def After_def)
  have g3: "GetServer no_faults 10 (example_service ''stopped'') 1 = Inr example_server"
    by (simp add: GetServer_def db_first_def no_faults_def example_service_def
        example_server_def After_def)
  obtain s' effs where run:
    "StartServer no_faults (\<lambda>_. 10) (example_service ''stopped'') 1 = (None, s', effs)"
    by (simp add: StartServer_def GetServer_def db_first_def updateServerStatus_def
        db_update_status_def no_faults_def example_service_def example_server_def After_def)
  from same_kind_in_flight_rejected[of no_faults "\<lambda>_. 10", OF g3] run
  have "effs = [Go (AsyncStartServer 1 example_server)]"
    by (simp add: example_service_def)
  with run same_kind_in_flight_rejected[of no_faults "\<lambda>_. 10", OF g1]
       same_kind_in_flight_rejected[of no_faults "\<lambda>_. 10", OF g2]
  show ?thesis by simp
qed

text \<open>
  C1 (as stated) fails: a start request that arrives while the persisted state is
  \<open>stopping\<close> passes both guards of StartServer, flips the state to \<open>starting\<close> and spawns
  the background start, while the stop operation that set \<open>stopping\<close> is still running.
\<close>

theorem start_while_stopping_accepted:
  "StartServer no_faults (\<lambda>_. 10) (example_service ''stopping'') 1 =
     (None,
      \<lparr>db = [example_server\<lparr>Status := ''starting'', UpdatedAt := 10\<rparr>], wsManager = False\<rparr>,
      [Go (AsyncStartServer 1 (example_server\<lparr>Status := ''stopping''\<rparr>))])"
  by (simp add: StartServer_def GetServer_def db_first_def updateServerStatus_def
      db_update_status_def no_faults_def example_service_def example_server_def After_def)

section \<open>Creating an endpoint\<close>

text \<open>
  C2. When a stored record already has the request's listen port, CreateServer returns the
  port-conflict error (the driver's error, if the count query itself fails), the service
  and its table are exactly as before, the caller's record is untouched and nothing is
  broadcast.
\<close>

theorem CreateServer_port_conflict:
  assumes "\<exists>r \<in> set (db s). L2TPPort r = L2TPPort server"
  shows "CreateServer io now s server =
           (Some (case count_fault io of
                    None \<Rightarrow> ErrPortInUse (L2TPPort server)
                  | Some m \<Rightarrow> ErrDB m), s, server, [])"
  using count_pos[where P = "\<lambda>r. L2TPPort r = L2TPPort server", OF assms]
  by (simp add: CreateServer_def db_count_port_def split: option.splits)

theorem CreateServer_port_conflict_witness:
  "CreateServer no_faults (\<lambda>_. 10) (example_service ''running'') (example_server\<lparr>ID := 0\<rparr>) =
     (Some (ErrPortInUse 5000), example_service ''running'', example_server\<lparr>ID := 0\<rparr>, [])"
proof -
  have h: "\<exists>r \<in> set (db (example_service ''running'')).
             L2TPPort r = L2TPPort (example_server\<lparr>ID := 0\<rparr>)"
    by (simp add: example_service_def)
  from CreateServer_port_conflict[OF h, of no_faults "\<lambda>_. 10"]
  show ?thesis by (simp add: no_faults_def example_server_def)
qed

text \<open>
  C10. A record that CreateServer creates has status \<open>stopped\<close> and the timestamps read
  from the clock during the call, whatever the request held in these fields; the row
  appended to the table is this record.
\<close>

theorem CreateServer_created_stopped:
  assumes "CreateServer io now s server = (None, s', server', effs)"
  shows "Status server' = ''stopped'' \<and> CreatedAt server' = now 0 \<and> UpdatedAt server' = now 1 \<and>
         db s' = db s @ [server'\<lparr>IsExpired := False\<rparr>]"
  using assms
  by (auto simp: CreateServer_def db_create_def BeforeCreate_def Let_def
      split: sum.splits if_splits prod.splits option.splits)

theorem CreateServer_created_stopped_witness:
  "CreateServer no_faults (\<lambda>k. 10 + int k) (example_service ''stopped'')
      (example_server\<lparr>ID := 0, L2TPPort := 6000, Status := ''running'', CreatedAt := 3\<rparr>) =
     (None,
      \<lparr>db = [example_server,
             example_server\<lparr>ID := 2, L2TPPort := 6000, CreatedAt := 10, UpdatedAt := 11\<rparr>],
       wsManager = False\<rparr>,
      example_server\<lparr>ID := 2, L2TPPort := 6000, CreatedAt := 10, UpdatedAt := 11\<rparr>, []) \<and>
   Status (example_server\<lparr>ID := 2, L2TPPort := 6000, CreatedAt := 10, UpdatedAt := 11\<rparr>) =
     ''stopped''"
proof -
  have run: "CreateServer no_faults (\<lambda>k. 10 + int k) (example_service ''stopped'')
      (example_server\<lparr>ID := 0, L2TPPort := 6000, Status := ''running'', CreatedAt := 3\<rparr>) =
     (None,
      \<lparr>db = [example_server,
             example_server\<lparr>ID := 2, L2TPPort := 6000, CreatedAt := 10, UpdatedAt := 11\<rparr>],
       wsManager = False\<rparr>,
      example_server\<lparr>ID := 2, L2TPPort := 6000, CreatedAt := 10, UpdatedAt := 11\<rparr>, [])"
    by (simp add: CreateServer_def db_count_port_def db_create_def BeforeCreate_def fresh_id_def
        no_faults_def example_service_def example_server_def After_def Let_def)
  from CreateServer_created_stopped[OF run] run show ?thesis by simp
qed

section \<open>Restart and the expiry guard\<close>

text \<open>
  C7. For an endpoint whose persisted state is \<open>stopped\<close>, RestartServer is StartServer:
  the same result, the same new store and the same broadcasts and spawned task. The
  nested call starts after RestartServer's own read of the record, so it sees the clock
  from the second reading on.
\<close>

theorem RestartServer_stopped_is_StartServer:
  assumes "find (\<lambda>r. ID r = sid) (db s) = Some row" and "Status row = ''stopped''"
  shows "RestartServer io now s sid = StartServer io (\<lambda>k. now (Suc k)) s sid"
  using assms
  by (auto simp: RestartServer_def GetServer_def db_first_def StartServer_def
      split: sum.splits option.splits)

theorem RestartServer_stopped_is_StartServer_witness:
  "RestartServer no_faults (\<lambda>_. 10) (example_service ''stopped'') 1 =
     StartServer no_faults (\<lambda>_. 10) (example_service ''stopped'') 1 \<and>
   StartServer no_faults (\<lambda>_. 10) (example_service ''stopped'') 1 =
     (None,
      \<lparr>db = [example_server\<lparr>Status := ''starting'', UpdatedAt := 10\<rparr>], wsManager = False\<rparr>,
      [Go (AsyncStartServer 1 example_server)])"
proof -
  have f: "find (\<lambda>r. ID r = 1) (db (example_service ''stopped'')) = Some example_server"
    by (simp add: example_service_def example_server_def)
  have st: "Status example_server = ''stopped''"
    by (simp add: example_server_def)
  have run: "StartServer no_faults (\<lambda>_. 10) (example_service ''stopped'') 1 =
     (None,
      \<lparr>db = [example_server\<lparr>Status := ''starting'', UpdatedAt := 10\<rparr>], wsManager = False\<rparr>,
      [Go (AsyncStartServer 1 example_server)])"
    by (simp add: StartServer_def GetServer_def db_first_def updateServerStatus_def
        db_update_status_def no_faults_def example_service_def example_server_def After_def)
  from RestartServer_stopped_is_StartServer[OF f st, of no_faults "\<lambda>_. 10"] run
  show ?thesis by simp
qed

text \<open>
  C9 (as amended). For an endpoint whose expiry date lies in the past when StartServer
  checks it, StartServer returns an error, the service is unchanged and nothing is
  broadcast or spawned. The error is the expiry error unless the state is \<open>running\<close> or
  \<open>starting\<close>: these guards come first and return their own errors.
\<close>

theorem StartServer_expired_rejected:
  assumes "GetServer io (now 0) s sid = Inr server" and "After (now 1) (ExpireDate server)"
  shows "StartServer io now s sid =
           (Some (if Status server = ''running'' then ErrAlreadyRunning
                  else if Status server = ''starting'' then ErrStarting
                  else ErrExpired), s, [])"
  using assms by (simp add: StartServer_def)

theorem StartServer_expired_rejected_witness:
  "StartServer no_faults (\<lambda>_. 2000) (example_service ''stopped'') 1 =
     (Some ErrExpired, example_service ''stopped'', [])"
proof -
  have g: "GetServer no_faults 2000 (example_service ''stopped'') 1 =
             Inr (example_server\<lparr>IsExpired := True\<rparr>)"
    by (simp add: GetServer_def db_first_def no_faults_def example_service_def
        example_server_def After_def)
  have x: "After 2000 (ExpireDate (example_server\<lparr>IsExpired := True\<rparr>))"
    by (simp add: example_server_def After_def)
  from StartServer_expired_rejected[of no_faults "\<lambda>_. 2000", OF g x]
  show ?thesis by (simp add: example_server_def)
qed

text \<open>
  C9 (as stated) fails: for an expired endpoint whose state is \<open>running\<close> the error
  StartServer returns is the already-running error, not the expiry error.
\<close>

theorem expired_running_not_expiry_error:
  "After 2000 (ExpireDate example_server) \<and>
   StartServer no_faults (\<lambda>_. 2000) (example_service ''running'') 1 =
     (Some ErrAlreadyRunning, example_service ''running'', []) \<and>
   ErrAlreadyRunning \<noteq> ErrExpired"
  by (simp add: StartServer_def GetServer_def db_first_def no_faults_def example_service_def
      example_server_def After_def)

section \<open>The forwarder registry: create-or-replace\<close>

text \<open>
  C3. startXrayForwarder probes the port first. When a probe fails it returns the
  port-unavailable error with the registry untouched, and nothing was created or started.
  When the probes pass, the instance registered for the port (if any) is closed and its
  entry deleted before \<open>core.New\<close> is called, so the first launch event comes after the
  teardown; afterwards the port holds the new instance on success and no entry on failure.
\<close>

theorem startXrayForwarder_probes_then_teardown:
  assumes "startXrayForwarder env t p server r = (res, r', evs)"
  shows "(case checkPortAvailable env p of
            (Some err, ev0) \<Rightarrow>
              res = Some (ErrPortUnavailable p err) \<and> r' = r \<and> evs = ev0 \<and>
              (\<forall>e \<in> set evs. \<not> is_launch e)
          | (None, ev0) \<Rightarrow>
              (\<exists>made rest.
                 evs = [ProbeUDP p True, ProbeTCP p True] @
                       (case xrayInstances r p of
                          None \<Rightarrow> []
                        | Some None \<Rightarrow> [RegistryDelete p]
                        | Some (Some old) \<Rightarrow> [InstanceClose p old, RegistryDelete p]) @
                       CoreNew p made # rest) \<and>
              xrayInstances r' p = (if res = None then Some (Some (nextInstance r)) else None))"
  using assms
  by (auto simp: startXrayForwarder_def Let_def checkPortAvailable_def
      split: prod.splits option.splits if_splits)

theorem startXrayForwarder_probes_then_teardown_witness:
  "(case startXrayForwarder healthy_host 0 5000 example_server
           (example_routing\<lparr>xrayInstances := [5000 \<mapsto> Some 7], nextInstance := 8\<rparr>) of
      (res, r', evs) \<Rightarrow>
        res = None \<and> xrayInstances r' 5000 = Some (Some 8) \<and>
        take 5 evs = [ProbeUDP 5000 True, ProbeTCP 5000 True, InstanceClose 5000 7,
                      RegistryDelete 5000, CoreNew 5000 (Some 8)]) \<and>
   (case startXrayForwarder (healthy_host\<lparr>listen_tcp := (\<lambda>_. False)\<rparr>) 0 5000 example_server
           (example_routing\<lparr>xrayInstances := [5000 \<mapsto> Some 7], nextInstance := 8\<rparr>) of
      (res, r', evs) \<Rightarrow>
        res = Some (ErrPortUnavailable 5000 (ErrTCPBusy 5000)) \<and>
        xrayInstances r' 5000 = Some (Some 7) \<and>
        evs = [ProbeUDP 5000 True, ProbeTCP 5000 False])"
proof -
  let ?r = "example_routing\<lparr>xrayInstances := [5000 \<mapsto> Some 7], nextInstance := 8\<rparr>"
  let ?busy = "healthy_host\<lparr>listen_tcp := (\<lambda>_. False)\<rparr>"
  obtain res r' evs where run: "startXrayForwarder healthy_host 0 5000 example_server ?r = (res, r', evs)"
    by (cases "startXrayForwarder healthy_host 0 5000 example_server ?r")
  obtain res2 r2 evs2 where run2: "startXrayForwarder ?busy 0 5000 example_server ?r = (res2, r2, evs2)"
    by (cases "startXrayForwarder ?busy 0 5000 example_server ?r")
  have ok: "res = None"
    using run
    by (auto simp: startXrayForwarder_def checkPortAvailable_def verifyXrayInstance_def
        healthy_host_def example_routing_def Let_def split: if_splits)
  have made: "evs ! 4 = CoreNew 5000 (Some 8)"
    using run
    by (auto simp: startXrayForwarder_def checkPortAvailable_def verifyXrayInstance_def
        healthy_host_def example_routing_def Let_def split: if_splits)
  have a: "xrayInstances r' 5000 = Some (Some 8) \<and>
           take 5 evs = [ProbeUDP 5000 True, ProbeTCP 5000 True, InstanceClose 5000 7,
                         RegistryDelete 5000, CoreNew 5000 (Some 8)]"
    using startXrayForwarder_probes_then_teardown[OF run] ok made
    by (auto simp: checkPortAvailable_def healthy_host_def example_routing_def)
  have b: "res2 = Some (ErrPortUnavailable 5000 (ErrTCPBusy 5000)) \<and>
           xrayInstances r2 5000 = Some (Some 7) \<and> evs2 = [ProbeUDP 5000 True, ProbeTCP 5000 False]"
    using startXrayForwarder_probes_then_teardown[OF run2]
    by (simp add: checkPortAvailable_def healthy_host_def example_routing_def)
  from run run2 ok a b show ?thesis by simp
qed

text \<open>
  C4. When the probes pass and creation, start or the liveness probe of the new instance
  fails, startXrayForwarder returns an error, the registry has no entry for the port, the
  call never stored an instance, and an instance that was created in the call is closed
  as the call's last action.
\<close>

theorem startXrayForwarder_failure_unregistered:
  assumes "fst (checkPortAvailable env p) = None"
      and "\<not> core_new env p (Host server) \<or> \<not> instance_start env p \<or>
           verifyXrayInstance env p 3 \<noteq> None"
      and "startXrayForwarder env t p server r = (res, r', evs)"
  shows "res \<noteq> None \<and> xrayInstances r' p = None \<and>
         (\<forall>h. RegistryStore p h \<notin> set evs) \<and>
         (\<forall>h. CoreNew p (Some h) \<in> set evs \<longrightarrow>
              h = nextInstance r \<and> last evs = InstanceClose p h)"
  using assms
  by (auto simp: startXrayForwarder_def Let_def checkPortAvailable_def
      split: prod.splits option.splits if_splits)

theorem startXrayForwarder_failure_unregistered_witness:
  "(case startXrayForwarder (healthy_host\<lparr>dial_udp := (\<lambda>_ _. False)\<rparr>) 0 5000 example_server
           (example_routing\<lparr>xrayInstances := [5000 \<mapsto> Some 7], nextInstance := 8\<rparr>) of
      (res, r', evs) \<Rightarrow>
        res = Some (ErrVerifyInstance (ErrDial 5000)) \<and> xrayInstances r' 5000 = None \<and>
        CoreNew 5000 (Some 8) \<in> set evs \<and> last evs = InstanceClose 5000 8)"
proof -
  let ?r = "example_routing\<lparr>xrayInstances := [5000 \<mapsto> Some 7], nextInstance := 8\<rparr>"
  let ?env = "healthy_host\<lparr>dial_udp := (\<lambda>_ _. False)\<rparr>"
  obtain res r' evs where run: "startXrayForwarder ?env 0 5000 example_server ?r = (res, r', evs)"
    by (cases "startXrayForwarder ?env 0 5000 example_server ?r")
  have probes: "fst (checkPortAvailable ?env 5000) = None"
    by (simp add: checkPortAvailable_def healthy_host_def)
  have fails: "\<not> core_new ?env 5000 (Host example_server) \<or> \<not> instance_start ?env 5000 \<or>
               verifyXrayInstance ?env 5000 3 \<noteq> None"
    by (simp add: verifyXrayInstance_def healthy_host_def)
  have made: "res = Some (ErrVerifyInstance (ErrDial 5000)) \<and> CoreNew 5000 (Some 8) \<in> set evs"
    using run
    by (auto simp: startXrayForwarder_def checkPortAvailable_def verifyXrayInstance_def
        healthy_host_def example_routing_def Let_def split: if_splits)
  from startXrayForwarder_failure_unregistered[OF probes fails run] made run
  show ?thesis by (simp add: example_routing_def)
qed

section \<open>The health monitor\<close>

lemma startXrayForwarder_frame:
  assumes "startXrayForwarder env t p server r = (res, r', evs)"
  shows "(\<forall>q. q \<noteq> p \<longrightarrow> xrayInstances r' q = xrayInstances r q) \<and>
         (\<forall>e \<in> set evs. event_port e = p) \<and> nextInstance r \<le> nextInstance r'"
  using assms
  by (auto simp: startXrayForwarder_def Let_def checkPortAvailable_def
      split: prod.splits option.splits if_splits)

lemma checkXrayInstance_frame:
  assumes "checkXrayInstance env t p server r = (r', evs)"
  shows "(\<forall>q. q \<noteq> p \<longrightarrow> xrayInstances r' q = xrayInstances r q) \<and>
         (\<forall>e \<in> set evs. event_port e = p) \<and> nextInstance r \<le> nextInstance r'"
  using assms
  by (auto simp: checkXrayInstance_def split: prod.splits option.splits if_splits
      dest!: startXrayForwarder_frame)

lemma checkXrayInstance_idle:
  "Status server \<noteq> ''running'' \<Longrightarrow> checkXrayInstance env t p server r = (r, [])"
  by (simp add: checkXrayInstance_def)

lemma checkXrayInstance_recovers:
  assumes "Status server = ''running''"
      and "xrayInstances r p = None \<or> xrayInstances r p = Some None \<or>
           (\<exists>h. xrayInstances r p = Some (Some h) \<and> verifyXrayInstance env p 1 \<noteq> None)"
      and "fst (checkPortAvailable env p) = None" and "core_new env p (Host server)"
      and "instance_start env p" and "verifyXrayInstance env p 3 = None"
      and "checkXrayInstance env t p server r = (r', evs)"
  shows "xrayInstances r' p = Some (Some (nextInstance r)) \<and>
         CoreNew p (Some (nextInstance r)) \<in> set evs"
  using assms
  by (auto simp: checkXrayInstance_def startXrayForwarder_def Let_def checkPortAvailable_def
      split: prod.splits option.splits if_splits)

lemma loop_idle:
  assumes "\<forall>s. (q, s) \<in> set xs \<longrightarrow> Status s \<noteq> ''running''"
      and "checkXrayInstances_loop env now xs r = (r', evs)"
  shows "xrayInstances r' q = xrayInstances r q \<and> (\<forall>e \<in> set evs. event_port e \<noteq> q)"
  using assms
proof (induction xs arbitrary: r now r' evs)
  case Nil
  then show ?case by simp
next
  case (Cons x xs)
  obtain p s where x: "x = (p, s)" by (cases x)
  obtain r1 ev1 where step: "checkXrayInstance env (now 0) p s r = (r1, ev1)"
    by (cases "checkXrayInstance env (now 0) p s r")
  obtain r2 ev2 where rest: "checkXrayInstances_loop env (\<lambda>k. now (Suc k)) xs r1 = (r2, ev2)"
    by (cases "checkXrayInstances_loop env (\<lambda>k. now (Suc k)) xs r1")
  from Cons.prems(2) x step rest have res: "r' = r2" "evs = ev1 @ ev2" by auto
  from Cons.prems(1) have tl: "\<forall>s. (q, s) \<in> set xs \<longrightarrow> Status s \<noteq> ''running''" by auto
  from Cons.IH[OF tl rest]
  have ih: "xrayInstances r2 q = xrayInstances r1 q" "\<forall>e \<in> set ev2. event_port e \<noteq> q" by auto
  have first: "xrayInstances r1 q = xrayInstances r q \<and> (\<forall>e \<in> set ev1. event_port e \<noteq> q)"
  proof (cases "p = q")
    case True
    with Cons.prems(1) x have "Status s \<noteq> ''running''" by auto
    with step checkXrayInstance_idle[of s env "now 0" p r] show ?thesis by auto
  next
    case False
    with checkXrayInstance_frame[OF step] show ?thesis by auto
  qed
  with ih res show ?case by auto
qed

lemma loop_recovers:
  assumes "distinct (map fst xs)" and "(p, s) \<in> set xs" and "Status s = ''running''"
      and "xrayInstances r p = None \<or> xrayInstances r p = Some None \<or>
           (\<exists>h. xrayInstances r p = Some (Some h) \<and> verifyXrayInstance env p 1 \<noteq> None)"
      and "fst (checkPortAvailable env p) = None" and "core_new env p (Host s)"
      and "instance_start env p" and "verifyXrayInstance env p 3 = None"
      and "checkXrayInstances_loop env now xs r = (r', evs)"
  shows "\<exists>h. nextInstance r \<le> h \<and> xrayInstances r' p = Some (Some h) \<and>
             CoreNew p (Some h) \<in> set evs"
  using assms(1,2,4,9)
proof (induction xs arbitrary: r now r' evs)
  case Nil
  then show ?case by simp
next
  case (Cons x xs)
  obtain q s' where x: "x = (q, s')" by (cases x)
  obtain r1 ev1 where step: "checkXrayInstance env (now 0) q s' r = (r1, ev1)"
    by (cases "checkXrayInstance env (now 0) q s' r")
  obtain r2 ev2 where rest: "checkXrayInstances_loop env (\<lambda>k. now (Suc k)) xs r1 = (r2, ev2)"
    by (cases "checkXrayInstances_loop env (\<lambda>k. now (Suc k)) xs r1")
  from Cons.prems(4) x step rest have res: "r' = r2" "evs = ev1 @ ev2" by auto
  from Cons.prems(1) x have dist: "distinct (map fst xs)" and fresh: "q \<notin> fst ` set xs" by auto
  show ?case
  proof (cases "(p, s) = (q, s')")
    case True
    then have eq: "q = p" "s' = s" by auto
    from checkXrayInstance_recovers[OF assms(3) Cons.prems(3) assms(5-8) step[unfolded eq]]
    have now_ok: "xrayInstances r1 p = Some (Some (nextInstance r))"
                 "CoreNew p (Some (nextInstance r)) \<in> set ev1" by auto
    from fresh eq have "\<forall>s. (p, s) \<in> set xs \<longrightarrow> Status s \<noteq> ''running''" by force
    from loop_idle[OF this rest] have "xrayInstances r2 p = xrayInstances r1 p" by simp
    with now_ok res show ?thesis by auto
  next
    case False
    with Cons.prems(2) x have mem: "(p, s) \<in> set xs" by auto
    with fresh have "q \<noteq> p" by force
    with checkXrayInstance_frame[OF step]
    have same: "xrayInstances r1 p = xrayInstances r p" and mono: "nextInstance r \<le> nextInstance r1"
      by auto
    from Cons.prems(3) same
    have unhealthy: "xrayInstances r1 p = None \<or> xrayInstances r1 p = Some None \<or>
           (\<exists>h. xrayInstances r1 p = Some (Some h) \<and> verifyXrayInstance env p 1 \<noteq> None)"
      by simp
    from Cons.IH[OF dist mem unhealthy rest] obtain h where
      "nextInstance r1 \<le> h" "xrayInstances r2 p = Some (Some h)" "CoreNew p (Some h) \<in> set ev2"
      by auto
    with mono res show ?thesis by (intro exI[of _ h]) auto
  qed
qed

text \<open>
  C6. In a sweep the monitor acts on an endpoint only if its state is \<open>running\<close>. For an
  endpoint in any other state the loop body changes nothing and does nothing, and the whole
  sweep leaves the registry entry of its port as it was, with no action on that port. For
  a running endpoint whose port has no entry or a nil entry the body is a call of
  startXrayForwarder; for one whose instance fails the liveness probe the body closes the
  instance, deletes its entry and then calls startXrayForwarder. With distinct ports, a
  running endpoint that is found unhealthy on a host where the probes and the engine
  succeed has a new instance registered when the sweep ends.
\<close>

theorem health_sweep_acts_on_running_only:
  "(Status server \<noteq> ''running'' \<longrightarrow> checkXrayInstance env t p server r = (r, [])) \<and>
   (Status server = ''running'' \<and> (xrayInstances r p = None \<or> xrayInstances r p = Some None) \<longrightarrow>
      checkXrayInstance env t p server r =
        (case startXrayForwarder env t p server r of (res, r', ev) \<Rightarrow> (r', ev))) \<and>
   (\<forall>inst. Status server = ''running'' \<and> xrayInstances r p = Some (Some inst) \<and>
           verifyXrayInstance env p 1 \<noteq> None \<longrightarrow>
      checkXrayInstance env t p server r =
        (case startXrayForwarder env t p server
                (r\<lparr>xrayInstances := (xrayInstances r)(p := None)\<rparr>) of
           (res, r', ev) \<Rightarrow>
             (r', [ProbeLiveness p 1 False, InstanceClose p inst, RegistryDelete p] @ ev))) \<and>
   (\<forall>q. (\<forall>s. (q, s) \<in> set (servers r) \<longrightarrow> Status s \<noteq> ''running'') \<longrightarrow>
        xrayInstances (fst (checkXrayInstances env now r)) q = xrayInstances r q \<and>
        (\<forall>e \<in> set (snd (checkXrayInstances env now r)). event_port e \<noteq> q)) \<and>
   (\<forall>q s. distinct (map fst (servers r)) \<and> (q, s) \<in> set (servers r) \<and>
          Status s = ''running'' \<and>
          (xrayInstances r q = None \<or> xrayInstances r q = Some None \<or>
           (\<exists>h. xrayInstances r q = Some (Some h) \<and> verifyXrayInstance env q 1 \<noteq> None)) \<and>
          fst (checkPortAvailable env q) = None \<and> core_new env q (Host s) \<and>
          instance_start env q \<and> verifyXrayInstance env q 3 = None \<longrightarrow>
        (\<exists>h. nextInstance r \<le> h \<and>
             xrayInstances (fst (checkXrayInstances env now r)) q = Some (Some h) \<and>
             CoreNew q (Some h) \<in> set (snd (checkXrayInstances env now r))))"
proof -
  have a: "Status server \<noteq> ''running'' \<longrightarrow> checkXrayInstance env t p server r = (r, [])"
    by (simp add: checkXrayInstance_def)
  have b: "Status server = ''running'' \<and> (xrayInstances r p = None \<or> xrayInstances r p = Some None) \<longrightarrow>
      checkXrayInstance env t p server r =
        (case startXrayForwarder env t p server r of (res, r', ev) \<Rightarrow> (r', ev))"
    by (auto simp: checkXrayInstance_def split: prod.splits)
  have c: "\<forall>inst. Status server = ''running'' \<and> xrayInstances r p = Some (Some inst) \<and>
           verifyXrayInstance env p 1 \<noteq> None \<longrightarrow>
      checkXrayInstance env t p server r =
        (case startXrayForwarder env t p server
                (r\<lparr>xrayInstances := (xrayInstances r)(p := None)\<rparr>) of
           (res, r', ev) \<Rightarrow>
             (r', [ProbeLiveness p 1 False, InstanceClose p inst, RegistryDelete p] @ ev))"
    by (auto simp: checkXrayInstance_def split: prod.splits)
  obtain r' evs where sweep: "checkXrayInstances_loop env now (servers r) r = (r', evs)"
    by (cases "checkXrayInstances_loop env now (servers r) r")
  then have out: "checkXrayInstances env now r = (r', evs)"
    by (simp add: checkXrayInstances_def)
  have d: "\<forall>q. (\<forall>s. (q, s) \<in> set (servers r) \<longrightarrow> Status s \<noteq> ''running'') \<longrightarrow>
        xrayInstances (fst (checkXrayInstances env now r)) q = xrayInstances r q \<and>
        (\<forall>e \<in> set (snd (checkXrayInstances env now r)). event_port e \<noteq> q)"
    using loop_idle[OF _ sweep] out by simp
  have e: "\<forall>q s. distinct (map fst (servers r)) \<and> (q, s) \<in> set (servers r) \<and>
          Status s = ''running'' \<and>
          (xrayInstances r q = None \<or> xrayInstances r q = Some None \<or>
           (\<exists>h. xrayInstances r q = Some (Some h) \<and> verifyXrayInstance env q 1 \<noteq> None)) \<and>
          fst (checkPortAvailable env q) = None \<and> core_new env q (Host s) \<and>
          instance_start env q \<and> verifyXrayInstance env q 3 = None \<longrightarrow>
        (\<exists>h. nextInstance r \<le> h \<and>
             xrayInstances (fst (checkXrayInstances env now r)) q = Some (Some h) \<and>
             CoreNew q (Some h) \<in> set (snd (checkXrayInstances env now r)))"
  proof (intro allI impI)
    fix q s
    assume h: "distinct (map fst (servers r)) \<and> (q, s) \<in> set (servers r) \<and>
          Status s = ''running'' \<and>
          (xrayInstances r q = None \<or> xrayInstances r q = Some None \<or>
           (\<exists>h. xrayInstances r q = Some (Some h) \<and> verifyXrayInstance env q 1 \<noteq> None)) \<and>
          fst (checkPortAvailable env q) = None \<and> core_new env q (Host s) \<and>
          instance_start env q \<and> verifyXrayInstance env q 3 = None"
    then have "\<exists>h. nextInstance r \<le> h \<and> xrayInstances r' q = Some (Some h) \<and>
                   CoreNew q (Some h) \<in> set evs"
      by (intro loop_recovers[OF _ _ _ _ _ _ _ _ sweep, of q s]) blast+
    with out show "\<exists>h. nextInstance r \<le> h \<and>
             xrayInstances (fst (checkXrayInstances env now r)) q = Some (Some h) \<and>
             CoreNew q (Some h) \<in> set (snd (checkXrayInstances env now r))"
      by simp
  qed
  from a b c d e show ?thesis by blast
qed

theorem health_sweep_acts_on_running_only_witness:
  "checkXrayInstance healthy_host 0 5001 (example_server\<lparr>ID := 2, L2TPPort := 5001\<rparr>)
      example_routing = (example_routing, []) \<and>
   checkXrayInstance healthy_host 0 5000 (example_server\<lparr>Status := ''running''\<rparr>)
      example_routing =
     (case startXrayForwarder healthy_host 0 5000 (example_server\<lparr>Status := ''running''\<rparr>)
             example_routing of (res, r', ev) \<Rightarrow> (r', ev)) \<and>
   take 3 (snd (checkXrayInstance (healthy_host\<lparr>dial_udp := (\<lambda>_ timeout. timeout \<noteq> 1)\<rparr>) 0 5000
                  (example_server\<lparr>Status := ''running''\<rparr>)
                  (example_routing\<lparr>xrayInstances := [5000 \<mapsto> Some 7], nextInstance := 8\<rparr>))) =
     [ProbeLiveness 5000 1 False, InstanceClose 5000 7, RegistryDelete 5000] \<and>
   xrayInstances (fst (checkXrayInstances healthy_host (\<lambda>_. 0) example_routing)) 5001 = None \<and>
   (\<exists>h. xrayInstances (fst (checkXrayInstances healthy_host (\<lambda>_. 0) example_routing)) 5000 =
          Some (Some h) \<and>
        CoreNew 5000 (Some h) \<in> set (snd (checkXrayInstances healthy_host (\<lambda>_. 0) example_routing)))"
proof -
  let ?up = "example_server\<lparr>Status := ''running''\<rparr>"
  let ?flaky = "healthy_host\<lparr>dial_udp := (\<lambda>_ timeout. timeout \<noteq> 1)\<rparr>"
  let ?r1 = "example_routing\<lparr>xrayInstances := [5000 \<mapsto> Some 7], nextInstance := 8\<rparr>"
  note sweep = health_sweep_acts_on_running_only[of "example_server\<lparr>ID := 2, L2TPPort := 5001\<rparr>"
      healthy_host 0 5001 example_routing "\<lambda>_. 0"]
  have idle: "Status (example_server\<lparr>ID := 2, L2TPPort := 5001\<rparr>) \<noteq> ''running''"
    by (simp add: example_server_def)
  have quiet: "\<forall>s. (5001, s) \<in> set (servers example_routing) \<longrightarrow> Status s \<noteq> ''running''"
    by (simp add: example_routing_def example_server_def)
  have sick: "distinct (map fst (servers example_routing)) \<and>
          (5000, ?up) \<in> set (servers example_routing) \<and>
          Status ?up = ''running'' \<and>
          (xrayInstances example_routing 5000 = None \<or>
           xrayInstances example_routing 5000 = Some None \<or>
           (\<exists>h. xrayInstances example_routing 5000 = Some (Some h) \<and>
                verifyXrayInstance healthy_host 5000 1 \<noteq> None)) \<and>
          fst (checkPortAvailable healthy_host 5000) = None \<and>
          core_new healthy_host 5000 (Host ?up) \<and>
          instance_start healthy_host 5000 \<and> verifyXrayInstance healthy_host 5000 3 = None"
    by (simp add: example_routing_def checkPortAvailable_def verifyXrayInstance_def
        healthy_host_def)
  have missing: "Status ?up = ''running'' \<and>
      (xrayInstances example_routing 5000 = None \<or> xrayInstances example_routing 5000 = Some None)"
    by (simp add: example_routing_def)
  have failing: "Status ?up = ''running'' \<and> xrayInstances ?r1 5000 = Some (Some 7) \<and>
      verifyXrayInstance ?flaky 5000 1 \<noteq> None"
    by (simp add: verifyXrayInstance_def healthy_host_def)
  from sweep idle have a: "checkXrayInstance healthy_host 0 5001
      (example_server\<lparr>ID := 2, L2TPPort := 5001\<rparr>) example_routing = (example_routing, [])"
    by blast
  from sweep quiet have b: "xrayInstances (fst (checkXrayInstances healthy_host (\<lambda>_. 0)
      example_routing)) 5001 = xrayInstances example_routing 5001"
    by blast
  from sweep sick have c: "\<exists>h. nextInstance example_routing \<le> h \<and>
      xrayInstances (fst (checkXrayInstances healthy_host (\<lambda>_. 0) example_routing)) 5000 =
          Some (Some h) \<and>
      CoreNew 5000 (Some h) \<in> set (snd (checkXrayInstances healthy_host (\<lambda>_. 0) example_routing))"
    by blast
  from health_sweep_acts_on_running_only[of ?up healthy_host 0 5000 example_routing] missing
  have d: "checkXrayInstance healthy_host 0 5000 ?up example_routing =
     (case startXrayForwarder healthy_host 0 5000 ?up example_routing of
        (res, r', ev) \<Rightarrow> (r', ev))"
    by blast
  from health_sweep_acts_on_running_only[of ?up ?flaky 0 5000 ?r1] failing
  have "checkXrayInstance ?flaky 0 5000 ?up ?r1 =
     (case startXrayForwarder ?flaky 0 5000 ?up
             (?r1\<lparr>xrayInstances := (xrayInstances ?r1)(5000 := None)\<rparr>) of
        (res, r', ev) \<Rightarrow>
          (r', [ProbeLiveness 5000 1 False, InstanceClose 5000 7, RegistryDelete 5000] @ ev))"
    by blast
  then have e: "take 3 (snd (checkXrayInstance ?flaky 0 5000 ?up ?r1)) =
     [ProbeLiveness 5000 1 False, InstanceClose 5000 7, RegistryDelete 5000]"
    by (simp split: prod.splits)
  from a b c d e show ?thesis by (auto simp: example_routing_def)
qed

section \<open>Traffic telemetry\<close>

text \<open>
  C8. A tick of the telemetry timer (estimateTraffic) leaves the four counters of every
  stat record as they were and neither adds nor removes a record; the record of its key
  gets the tick's time as LastUpdate. updateStats is what changes counters: it adds its
  arguments to the counters of its key (with the wrap-around of \<open>int64\<close>) and leaves the
  other records alone. startXrayForwarder, which creates a record for a key that has
  none, keeps every record that exists.
\<close>

theorem timer_tick_keeps_counters:
  "map_option counters (trafficStats (estimateTraffic t key port r) k) =
     map_option counters (trafficStats r k) \<and>
   dom (trafficStats (estimateTraffic t key port r)) = dom (trafficStats r) \<and>
   map_option LastUpdate (trafficStats (estimateTraffic t key port r) k) =
     (if k = key then map_option (\<lambda>_. t) (trafficStats r k)
      else map_option LastUpdate (trafficStats r k)) \<and>
   map_option counters (trafficStats (updateStats t key a b c d r) k) =
     (if k = key
      then map_option (\<lambda>st. (BytesSent st + a, BytesReceived st + b,
                              PacketsSent st + c, PacketsReceived st + d)) (trafficStats r k)
      else map_option counters (trafficStats r k)) \<and>
   (\<forall>st. trafficStats r k = Some st \<longrightarrow>
      trafficStats (fst (snd (startXrayForwarder env t' p server r))) k = Some st)"
proof -
  have tick: "map_option counters (trafficStats (estimateTraffic t key port r) k) =
     map_option counters (trafficStats r k)"
    by (simp add: estimateTraffic_def counters_def split: option.splits)
  have keys: "dom (trafficStats (estimateTraffic t key port r)) = dom (trafficStats r)"
    by (auto simp: estimateTraffic_def split: option.splits if_splits)
  have touch: "map_option LastUpdate (trafficStats (estimateTraffic t key port r) k) =
     (if k = key then map_option (\<lambda>_. t) (trafficStats r k)
      else map_option LastUpdate (trafficStats r k))"
    by (simp add: estimateTraffic_def split: option.splits)
  have upd: "map_option counters (trafficStats (updateStats t key a b c d r) k) =
     (if k = key
      then map_option (\<lambda>st. (BytesSent st + a, BytesReceived st + b,
                              PacketsSent st + c, PacketsReceived st + d)) (trafficStats r k)
      else map_option counters (trafficStats r k))"
    by (simp add: updateStats_def counters_def split: option.splits)
  have create: "\<forall>st. trafficStats r k = Some st \<longrightarrow>
      trafficStats (fst (snd (startXrayForwarder env t' p server r))) k = Some st"
    by (auto simp: startXrayForwarder_def Let_def split: prod.splits option.splits if_splits)
  from tick keys touch upd create show ?thesis by blast
qed

theorem timer_tick_keeps_counters_witness:
  "map_option counters
     (trafficStats (estimateTraffic 99 ''10.0.0.5:5000'' 5000
        (example_routing\<lparr>trafficStats := [''10.0.0.5:5000'' \<mapsto>
           \<lparr>BytesSent = 5, BytesReceived = 6, PacketsSent = 7, PacketsReceived = 8,
            LastUpdate = 1\<rparr>]\<rparr>)) ''10.0.0.5:5000'') = Some (5, 6, 7, 8) \<and>
   map_option LastUpdate
     (trafficStats (estimateTraffic 99 ''10.0.0.5:5000'' 5000
        (example_routing\<lparr>trafficStats := [''10.0.0.5:5000'' \<mapsto>
           \<lparr>BytesSent = 5, BytesReceived = 6, PacketsSent = 7, PacketsReceived = 8,
            LastUpdate = 1\<rparr>]\<rparr>)) ''10.0.0.5:5000'') = Some 99 \<and>
   map_option counters
     (trafficStats (updateStats 99 ''10.0.0.5:5000'' 1 1 1 1
        (example_routing\<lparr>trafficStats := [''10.0.0.5:5000'' \<mapsto>
           \<lparr>BytesSent = 5, BytesReceived = 6, PacketsSent = 7, PacketsReceived = 8,
            LastUpdate = 1\<rparr>]\<rparr>)) ''10.0.0.5:5000'') = Some (6, 7, 8, 9) \<and>
   trafficStats (fst (snd (startXrayForwarder healthy_host 100 5000 example_server
        (example_routing\<lparr>trafficStats := [''10.0.0.5:5000'' \<mapsto>
           \<lparr>BytesSent = 5, BytesReceived = 6, PacketsSent = 7, PacketsReceived = 8,
            LastUpdate = 1\<rparr>]\<rparr>)))) ''10.0.0.5:5000'' =
     Some \<lparr>BytesSent = 5, BytesReceived = 6, PacketsSent = 7, PacketsReceived = 8,
           LastUpdate = 1\<rparr>"
proof -
  let ?st = "\<lparr>BytesSent = 5, BytesReceived = 6, PacketsSent = 7, PacketsReceived = 8,
              LastUpdate = 1\<rparr> :: TrafficStats"
  let ?r = "example_routing\<lparr>trafficStats := [''10.0.0.5:5000'' \<mapsto> ?st]\<rparr>"
  have present: "trafficStats ?r ''10.0.0.5:5000'' = Some ?st"
    by simp
  from timer_tick_keeps_counters[where t = 99 and key = "''10.0.0.5:5000''" and port = 5000
      and r = ?r and k = "''10.0.0.5:5000''" and a = 1 and b = 1 and c = 1 and d = 1
      and env = healthy_host and t' = 100 and p = 5000 and server = example_server] present
  show ?thesis by (simp add: counters_def)
qed

section \<open>The readiness wait of the remote start sequence\<close>

lemma waitForContainerReady_succeeds:
  "fst (waitForContainerReady env hist containerName) = None"
  by (simp add: waitForContainerReady_def split: prod.splits sum.splits)

lemma waitForContainerReady_result:
  "waitForContainerReady env hist containerName = (res, hist') \<Longrightarrow> res = None"
  using waitForContainerReady_succeeds[of env hist containerName] by simp

lemma StartL2TPContainerWithCallback_steps:
  assumes "StartL2TPContainerWithCallback env server = (res, cb)"
  shows "(\<forall>e. res \<noteq> Some (ErrContainerReady e)) \<and>
         (\<forall>d. (''container_ready'', False, d) \<notin> set cb) \<and>
         ((''container_start'', True, None) \<in> set cb \<longrightarrow>
            res = None \<and> last cb = (''container_ready'', True, None))"
  using assms unfolding StartL2TPContainerWithCallback_def createSSHClient_def Let_def
  by (auto split: option.splits prod.splits sum.splits dest: waitForContainerReady_result)

text \<open>
  C5. waitForContainerReady reports success whatever the watch command returns: an error
  of the command, an output other than the start event (the 30 second timeout leaves it
  empty) and the start event all give nil. So the start sequence never returns the
  readiness error and never reports the step \<open>container_ready\<close> as failed; once the
  container-start step has succeeded the sequence succeeds, and asyncStartServer writes
  the state \<open>running\<close>, never \<open>error\<close>.
\<close>

theorem readiness_wait_never_fails:
  "fst (waitForContainerReady env hist containerName) = None \<and>
   (\<forall>e. fst (StartL2TPContainerWithCallback env server) \<noteq> Some (ErrContainerReady e)) \<and>
   (\<forall>d. (''container_ready'', False, d) \<notin> set (snd (StartL2TPContainerWithCallback env server))) \<and>
   ((''container_start'', True, None) \<in> set (snd (StartL2TPContainerWithCallback env server)) \<longrightarrow>
      fst (StartL2TPContainerWithCallback env server) = None \<and>
      last (snd (StartL2TPContainerWithCallback env server)) = (''container_ready'', True, None) \<and>
      db (fst (asyncStartServer io env t s sid server)) =
        db (fst (snd (updateServerStatus io t s sid ''running''))))"
proof -
  obtain res cb where seq: "StartL2TPContainerWithCallback env server = (res, cb)"
    by (cases "StartL2TPContainerWithCallback env server")
  note steps = StartL2TPContainerWithCallback_steps[OF seq]
  have run: "(''container_start'', True, None) \<in> set cb \<longrightarrow>
      db (fst (asyncStartServer io env t s sid server)) =
        db (fst (snd (updateServerStatus io t s sid ''running'')))"
    using steps by (auto simp: asyncStartServer_def seq Let_def split: prod.splits)
  from waitForContainerReady_succeeds[of env hist containerName] steps run
  show ?thesis by (simp add: seq)
qed

theorem readiness_wait_never_fails_witness:
  "fst (waitForContainerReady silent_remote [] ''l2tp-server'') = None \<and>
   StartL2TPContainerWithCallback silent_remote example_server =
     (None, [(''ssh_connect'', True, None), (''docker_check'', True, None),
             (''cleanup'', True, None), (''config'', True, None), (''image_pull'', True, None),
             (''container_start'', True, None), (''container_ready'', True, None)]) \<and>
   db (fst (asyncStartServer no_faults silent_remote 10 (example_service ''starting'') 1
              example_server)) =
     [example_server\<lparr>Status := ''running'', UpdatedAt := 10\<rparr>]"
proof -
  have seq: "StartL2TPContainerWithCallback silent_remote example_server =
     (None, [(''ssh_connect'', True, None), (''docker_check'', True, None),
             (''cleanup'', True, None), (''config'', True, None), (''image_pull'', True, None),
             (''container_start'', True, None), (''container_ready'', True, None)])"
    by (simp add: StartL2TPContainerWithCallback_def createSSHClient_def
        ensureDockerInstalled_def cleanupExistingContainer_def executeCommand_def
        waitForContainerReady_def buildUserEnv_def TrimSpace_def silent_remote_def
        example_server_def Let_def)
  have started: "(''container_start'', True, None) \<in>
      set (snd (StartL2TPContainerWithCallback silent_remote example_server))"
    by (simp add: seq)
  have upd: "db (fst (snd (updateServerStatus no_faults 10 (example_service ''starting'') 1
                ''running''))) = [example_server\<lparr>Status := ''running'', UpdatedAt := 10\<rparr>]"
    by (simp add: updateServerStatus_def db_update_status_def no_faults_def
        example_service_def example_server_def)
  from readiness_wait_never_fails[of silent_remote "[]" "''l2tp-server''" example_server
      no_faults 10 "example_service ''starting''" 1] started seq upd
  show ?thesis by simp
qed

end
